theory Spec2Isabelle
  imports Complex_Main
begin

section \<open>Forecast accuracy metrics, chart series and report statistics\<close>

text \<open>
  A shallow embedding of the numeric core of two dashboard components:
  \<^verbatim>\<open>calculateMAPE\<close>, \<open>calculateRMSE\<close> and \<open>prepareChartData\<close> of
  \<^verbatim>\<open>src/components/forecast-accuracy-chart.tsx\<close>, and \<open>calculateStats\<close> of
  \<^verbatim>\<open>src/components/report-dialog.tsx\<close>.

  Numbers. Costs, prices and forecast values are finite numbers, modelled by the reals
  they denote. Where a property is the equality of a formula with what the code
  computes by the same expression, the arithmetic is exact: rounding is left out on
  both sides, and the only operation that can leave the finite numbers is the unguarded
  division in \<open>calculateStats\<close>, whose result has the type \<open>js_number\<close> (it keeps
  \<open>Infinity\<close>, \<open>-Infinity\<close> and \<open>NaN\<close> apart from the finite values). Where rounding
  decides the property, \<open>calculateMAPE_double\<close> rounds every operation to a double.

  Dates. A \<open>Date\<close> is modelled by its local calendar fields (year, month \<open>0..11\<close>, day of
  the month \<open>1..31\<close>); the time of day is kept by \<open>setMonth\<close> and plays no part in a
  label. The clock that \<open>new Date()\<close> reads is an argument of \<open>prepareChartData\<close>.
\<close>

subsection \<open>Data\<close>

record local_date =
  year :: nat
  month :: nat
  day :: nat

text \<open>A row of the history table, as the chart reads it: \<open>item.created_at\<close>, \<open>item.cost\<close>.\<close>

record history_row =
  created_at :: local_date
  cost :: real

text \<open>
  The forecast response \<open>forecastData\<close> (of type \<open>any\<close> in the source): \<open>Nullish\<close> is
  \<open>null\<close> or \<open>undefined\<close>, \<open>NoForecast\<close> an object whose \<open>forecast\<close> property is
  missing, \<open>Forecast fc\<close> an object whose \<open>forecast\<close> property is the array \<open>fc\<close>
  (an array is truthy, also when empty).
\<close>

datatype forecast_data = Nullish | NoForecast | Forecast "real list"

datatype js_error = TypeError

text \<open>An element of the chart series; \<open>None\<close> is the source's \<open>null\<close>.\<close>

record chart_point =
  date :: string
  historical :: "real option"
  forecast :: "real option"

text \<open>An element of \<open>historicalData\<close>, as the report reads it: \<open>item.price\<close>.\<close>

record price_row =
  price :: real

datatype js_number = Finite real | PosInfinity | NegInfinity | NaN

text \<open>
  The state variable \<open>forecastedCost\<close>. It is declared \<open>number | null\<close>, but the
  component stores \<open>data.forecast[5]\<close> in it, where \<open>data\<close> has the type \<open>any\<close>: that
  is \<open>undefined\<close> when the response holds fewer than six values.
\<close>

datatype forecasted_cost = Null | Undefined | Number real

record report_stats =
  lastHistorical :: real
  lastForecast :: forecasted_cost
  percentChange :: js_number
  historicalAvg :: real
  forecastAvg :: real

subsection \<open>Array operations\<close>

text \<open>
  \<open>xs.slice(-n)\<close> for a length \<open>n\<close>: the start \<open>-0\<close> is \<open>0\<close>, so the whole array is
  returned when \<open>n = 0\<close>; otherwise the start is \<open>max (length xs - n) 0\<close>, which the
  truncating subtraction of \<open>nat\<close> computes.
\<close>

definition slice_from_end :: "nat \<Rightarrow> 'a list \<Rightarrow> 'a list" where
  "slice_from_end n xs = (if n = 0 then xs else drop (length xs - n) xs)"

text \<open>
  \<open>xs.forEach((item, index) => ...)\<close> where the callback updates local variables: the
  variables are the state \<open>s\<close>, and \<open>i\<close> is the index of the head of the list.
\<close>

fun forEach :: "('a \<Rightarrow> nat \<Rightarrow> 's \<Rightarrow> 's) \<Rightarrow> 'a list \<Rightarrow> nat \<Rightarrow> 's \<Rightarrow> 's" where
  "forEach f [] i s = s"
| "forEach f (x # xs) i s = forEach f xs (Suc i) (f x i s)"

subsection \<open>calculateMAPE and calculateRMSE\<close>

text \<open>The body of the callback of \<open>calculateMAPE\<close>; the state is \<open>(totalError, count)\<close>.\<close>

definition mape_step :: "real list \<Rightarrow> history_row \<Rightarrow> nat \<Rightarrow> real \<times> nat \<Rightarrow> real \<times> nat" where
  "mape_step fc item index = (\<lambda>(totalError, count).
     if index < length fc then
       (let actual = cost item; predicted = fc ! index in
        if actual \<noteq> 0
        then (totalError + \<bar>(actual - predicted) / actual\<bar> * 100, count + 1)
        else (totalError, count))
     else (totalError, count))"

definition calculateMAPE :: "history_row list \<Rightarrow> forecast_data \<Rightarrow> js_error + real" where
  "calculateMAPE historyData forecastData =
     (if historyData = [] then Inr 0
      else case forecastData of
        Nullish \<Rightarrow> Inl TypeError
      | NoForecast \<Rightarrow> Inr 0
      | Forecast fc \<Rightarrow>
          (let lastHistoricalPoints = slice_from_end (length fc) historyData;
               (totalError, count) = forEach (mape_step fc) lastHistoricalPoints 0 (0, 0)
           in Inr (if count > 0 then totalError / real count else 0)))"

text \<open>The body of the callback of \<open>calculateRMSE\<close>; the state is \<open>(sumSquaredErrors, count)\<close>.\<close>

definition rmse_step :: "real list \<Rightarrow> history_row \<Rightarrow> nat \<Rightarrow> real \<times> nat \<Rightarrow> real \<times> nat" where
  "rmse_step fc item index = (\<lambda>(sumSquaredErrors, count).
     if index < length fc then
       (let actual = cost item; predicted = fc ! index in
        (sumSquaredErrors + (actual - predicted) ^ 2, count + 1))
     else (sumSquaredErrors, count))"

definition calculateRMSE :: "history_row list \<Rightarrow> forecast_data \<Rightarrow> js_error + real" where
  "calculateRMSE historyData forecastData =
     (if historyData = [] then Inr 0
      else case forecastData of
        Nullish \<Rightarrow> Inl TypeError
      | NoForecast \<Rightarrow> Inr 0
      | Forecast fc \<Rightarrow>
          (let lastHistoricalPoints = slice_from_end (length fc) historyData;
               (sumSquaredErrors, count) = forEach (rmse_step fc) lastHistoricalPoints 0 (0, 0)
           in Inr (if count > 0 then sqrt (sumSquaredErrors / real count) else 0)))"

subsection \<open>The metrics as the specification words them\<close>

text \<open>
  The last \<open>min (length historical) (length forecast)\<close> historical costs, in order,
  paired with the forecast from its index \<open>0\<close>.
\<close>

definition tail_pairs :: "history_row list \<Rightarrow> real list \<Rightarrow> (real \<times> real) list" where
  "tail_pairs h f =
     zip (map cost (drop (length h - min (length h) (length f)) h)) f"

definition mean :: "real list \<Rightarrow> real" where
  "mean xs = sum_list xs / real (length xs)"

definition nonzero_actual :: "real \<times> real \<Rightarrow> bool" where
  "nonzero_actual = (\<lambda>(actual, predicted). actual \<noteq> 0)"

definition spec_MAPE :: "history_row list \<Rightarrow> real list \<Rightarrow> real" where
  "spec_MAPE h f =
     (let valid = filter nonzero_actual (tail_pairs h f)
      in if valid = [] then 0
         else mean (map (\<lambda>(actual, predicted). \<bar>actual - predicted\<bar> / actual * 100) valid))"

definition spec_RMSE :: "history_row list \<Rightarrow> real list \<Rightarrow> real" where
  "spec_RMSE h f =
     (let pairs = tail_pairs h f
      in if pairs = [] then 0
         else sqrt (mean (map (\<lambda>(actual, predicted). (actual - predicted) ^ 2) pairs)))"

text \<open>Every cost and forecast value multiplied by the constant \<open>c\<close>.\<close>

definition scale_row :: "real \<Rightarrow> history_row \<Rightarrow> history_row" where
  "scale_row c r = r\<lparr>cost := c * cost r\<rparr>"

subsection \<open>Dates: setMonth and the label\<close>

definition leap_year :: "nat \<Rightarrow> bool" where
  "leap_year y = ((y mod 4 = 0 \<and> y mod 100 \<noteq> 0) \<or> y mod 400 = 0)"

definition days_in_month :: "nat \<Rightarrow> nat \<Rightarrow> nat" where
  "days_in_month y m =
     (if m = 1 then (if leap_year y then 29 else 28)
      else if m = 3 \<or> m = 5 \<or> m = 8 \<or> m = 10 then 30
      else 31)"

text \<open>
  \<open>MakeDay(year, month, date)\<close> of the language standard, for \<open>date \<ge> 1\<close>: the month
  is brought into \<open>0..11\<close> with the years carried, and the result is the day that lies
  \<open>date - 1\<close> days after the first of that month, so a day of the month that the month
  lacks runs over into the following month.
\<close>

function make_day :: "nat \<Rightarrow> nat \<Rightarrow> nat \<Rightarrow> local_date" where
  "make_day y m d =
     (let ym = y + m div 12; mn = m mod 12 in
      if d \<le> days_in_month ym mn then \<lparr>year = ym, month = mn, day = d\<rparr>
      else make_day ym (mn + 1) (d - days_in_month ym mn))"
  by pat_completeness auto
termination
  by (relation "measure (\<lambda>(y, m, d). d)") (auto simp: days_in_month_def)

declare make_day.simps [simp del]

definition getMonth :: "local_date \<Rightarrow> nat" where
  "getMonth dt = month dt"

definition setMonth :: "local_date \<Rightarrow> nat \<Rightarrow> local_date" where
  "setMonth dt m = make_day (year dt) m (day dt)"

definition month_short :: "nat \<Rightarrow> string" where
  "month_short m =
     [''Jan'', ''Feb'', ''Mar'', ''Apr'', ''May'', ''Jun'',
      ''Jul'', ''Aug'', ''Sep'', ''Oct'', ''Nov'', ''Dec''] ! m"

definition two_digits :: "nat \<Rightarrow> string" where
  "two_digits n = [''0123456789'' ! (n mod 100 div 10), ''0123456789'' ! (n mod 10)]"

text \<open>
  The label of a month and year, \<open>toLocaleDateString("en-US", {month: "short", year:
  "2-digit"})\<close>, such as \<open>Jan 24\<close>.
\<close>

definition month_year_label :: "nat \<Rightarrow> nat \<Rightarrow> string" where
  "month_year_label y m = month_short m @ '' '' @ two_digits y"

definition toLocaleDateString :: "local_date \<Rightarrow> string" where
  "toLocaleDateString dt = month_year_label (year dt) (month dt)"

subsection \<open>prepareChartData\<close>

text \<open>The first loop: one point for each history row.\<close>

fun history_loop :: "history_row list \<Rightarrow> chart_point list \<Rightarrow> chart_point list" where
  "history_loop [] combined = combined"
| "history_loop (item # items) combined =
     history_loop items
       (combined @ [\<lparr>date = toLocaleDateString (created_at item),
                     historical = Some (cost item), forecast = None\<rparr>])"

text \<open>The second loop: its state is \<open>lastDate\<close> and \<open>combined\<close>.\<close>

fun forecast_loop :: "real list \<Rightarrow> local_date \<Rightarrow> chart_point list \<Rightarrow> chart_point list" where
  "forecast_loop [] lastDate combined = combined"
| "forecast_loop (v # vs) lastDate combined =
     (let lastDate' = setMonth lastDate (getMonth lastDate + 1)
      in forecast_loop vs lastDate'
           (combined @ [\<lparr>date = toLocaleDateString lastDate',
                         historical = None, forecast = Some v\<rparr>]))"

text \<open>\<open>now\<close> is the value of \<open>new Date()\<close>, read only when \<open>historyData\<close> is empty.\<close>

definition prepareChartData ::
  "local_date \<Rightarrow> history_row list \<Rightarrow> forecast_data \<Rightarrow> chart_point list" where
  "prepareChartData now historyData forecastData =
     (let combined = history_loop historyData [];
          lastDate = (if length historyData > 0 then created_at (last historyData) else now)
      in case forecastData of
           Forecast fc \<Rightarrow> forecast_loop fc lastDate combined
         | _ \<Rightarrow> combined)"

subsection \<open>The series as the specification words it\<close>

text \<open>The month after a month, as a pair of year and month.\<close>

definition next_month :: "nat \<times> nat \<Rightarrow> nat \<times> nat" where
  "next_month = (\<lambda>(y, m). if m = 11 then (y + 1, 0) else (y, m + 1))"

text \<open>
  The labels of \<open>n\<close> consecutive months, the first of them the month after \<open>ym\<close>.
\<close>

fun following_labels :: "nat \<Rightarrow> nat \<times> nat \<Rightarrow> string list" where
  "following_labels 0 ym = []"
| "following_labels (Suc n) ym =
     (let ym' = next_month ym
      in month_year_label (fst ym') (snd ym') # following_labels n ym')"

subsection \<open>calculateStats\<close>

text \<open>
  \<open>a / b\<close> on finite numbers. A zero divisor is the positive zero here: the divisor of
  \<open>calculateStats\<close> is a sum that starts from \<open>0\<close>, divided by a positive length.
\<close>

definition js_div :: "real \<Rightarrow> real \<Rightarrow> js_number" where
  "js_div a b =
     (if b \<noteq> 0 then Finite (a / b)
      else if a > 0 then PosInfinity
      else if a < 0 then NegInfinity
      else NaN)"

fun js_times :: "js_number \<Rightarrow> real \<Rightarrow> js_number" where
  "js_times (Finite x) c = Finite (x * c)"
| "js_times PosInfinity c = (if c > 0 then PosInfinity else if c < 0 then NegInfinity else NaN)"
| "js_times NegInfinity c = (if c > 0 then NegInfinity else if c < 0 then PosInfinity else NaN)"
| "js_times NaN c = NaN"

text \<open>\<open>x || 0\<close> on a finite number: the falsy number is \<open>0\<close>.\<close>

definition or_zero :: "real \<Rightarrow> real" where
  "or_zero x = (if x \<noteq> 0 then x else 0)"

text \<open>
  \<open>historicalData\<close>, \<open>forecastSeries\<close> and \<open>forecastedCost\<close> are the prop and the two
  state variables that the closure reads. The check \<open>forecastedCost === null\<close> is strict
  equality: only \<open>Null\<close> meets it.
\<close>

definition calculateStats ::
  "price_row list \<Rightarrow> real list \<Rightarrow> forecasted_cost \<Rightarrow> report_stats option" where
  "calculateStats historicalData forecastSeries forecastedCost =
     (if length historicalData = 0 \<or> length forecastSeries = 0 \<or> forecastedCost = Null
      then None
      else
          (let hAvg = foldl (\<lambda>sum item. sum + price item) 0 historicalData
                        / real (length historicalData);
               fAvg = foldl (\<lambda>sum p. sum + p) 0 forecastSeries
                        / real (length forecastSeries);
               pct = js_times (js_div (fAvg - hAvg) hAvg) 100
           in Some \<lparr>lastHistorical = or_zero (price (last historicalData)),
                    lastForecast = forecastedCost,
                    percentChange = pct,
                    historicalAvg = hAvg,
                    forecastAvg = fAvg\<rparr>))"

subsection \<open>Double arithmetic\<close>

text \<open>
  Where rounding decides a property, the numbers are doubles: a finite double is the
  real it denotes, and every operation of the source returns the exact result rounded
  to the nearest double, ties to the even significand. The two zeros are one value here;
  \<open>calculateMAPE\<close> never divides by a zero.
\<close>















section \<open>Properties\<close>

subsection \<open>The loops of the metrics\<close>

lemma mape_step_apply:
  "mape_step fc item i (t, c) =
     (if i < length fc \<and> cost item \<noteq> 0
      then (t + \<bar>(cost item - fc ! i) / cost item\<bar> * 100, Suc c)
      else (t, c))"
  by (simp add: mape_step_def Let_def)

lemma rmse_step_apply:
  "rmse_step fc item i (t, c) =
     (if i < length fc then (t + (cost item - fc ! i) ^ 2, Suc c) else (t, c))"
  by (simp add: rmse_step_def Let_def)

lemma forEach_mape_step:
  "forEach (mape_step fc) xs i (t, c) =
     (t + sum_list (map (\<lambda>(a, p). \<bar>(a - p) / a\<bar> * 100)
              (filter nonzero_actual (zip (map cost xs) (drop i fc)))),
      c + length (filter nonzero_actual (zip (map cost xs) (drop i fc))))"
proof (induction xs arbitrary: i t c)
  case Nil
  then show ?case by simp
next
  case (Cons x xs)
  show ?case
  proof (cases "i < length fc")
    case True
    then have d: "drop i fc = fc ! i # drop (Suc i) fc"
      by (simp add: Cons_nth_drop_Suc)
    show ?thesis
      using True by (simp add: Cons.IH d mape_step_apply nonzero_actual_def)
  next
    case False
    then show ?thesis
      by (simp add: Cons.IH mape_step_apply)
  qed
qed

lemma forEach_rmse_step:
  "forEach (rmse_step fc) xs i (t, c) =
     (t + sum_list (map (\<lambda>(a, p). (a - p) ^ 2) (zip (map cost xs) (drop i fc))),
      c + length (zip (map cost xs) (drop i fc)))"
proof (induction xs arbitrary: i t c)
  case Nil
  then show ?case by simp
next
  case (Cons x xs)
  show ?case
  proof (cases "i < length fc")
    case True
    then have d: "drop i fc = fc ! i # drop (Suc i) fc"
      by (simp add: Cons_nth_drop_Suc)
    show ?thesis
      using True by (simp add: Cons.IH d rmse_step_apply)
  next
    case False
    then show ?thesis
      by (simp add: Cons.IH rmse_step_apply)
  qed
qed

lemma slice_tail_pairs:
  "zip (map cost (slice_from_end (length fc) h)) fc = tail_pairs h fc"
proof (cases "fc = []")
  case True
  then show ?thesis by (simp add: tail_pairs_def)
next
  case False
  have "length h - min (length h) (length fc) = length h - length fc"
    by simp
  with False show ?thesis
    by (simp add: slice_from_end_def tail_pairs_def)
qed

lemma tail_pairs_Nil_left: "tail_pairs [] f = []"
  by (simp add: tail_pairs_def)

lemma tail_pairs_Nil_right: "tail_pairs h [] = []"
  by (simp add: tail_pairs_def)

lemma forEach_mape_tail:
  "forEach (mape_step fc) (slice_from_end (length fc) h) 0 (0, 0) =
     (sum_list (map (\<lambda>(a, p). \<bar>(a - p) / a\<bar> * 100) (filter nonzero_actual (tail_pairs h fc))),
      length (filter nonzero_actual (tail_pairs h fc)))"
  by (simp only: forEach_mape_step drop_0 slice_tail_pairs add_0)

lemma forEach_rmse_tail:
  "forEach (rmse_step fc) (slice_from_end (length fc) h) 0 (0, 0) =
     (sum_list (map (\<lambda>(a, p). (a - p) ^ 2) (tail_pairs h fc)), length (tail_pairs h fc))"
  by (simp only: forEach_rmse_step drop_0 slice_tail_pairs add_0)

lemma calculateMAPE_Forecast:
  "calculateMAPE h (Forecast fc) =
     Inr (let valid = filter nonzero_actual (tail_pairs h fc)
          in if valid = [] then 0
             else sum_list (map (\<lambda>(a, p). \<bar>(a - p) / a\<bar> * 100) valid) / real (length valid))"
proof (cases "h = []")
  case True
  then show ?thesis
    by (simp add: calculateMAPE_def tail_pairs_Nil_left)
next
  case False
  then show ?thesis
    by (simp add: calculateMAPE_def Let_def forEach_mape_tail)
qed

lemma calculateRMSE_Forecast:
  "calculateRMSE h (Forecast fc) =
     Inr (let pairs = tail_pairs h fc
          in if pairs = [] then 0
             else sqrt (sum_list (map (\<lambda>(a, p). (a - p) ^ 2) pairs) / real (length pairs)))"
proof (cases "h = []")
  case True
  then show ?thesis
    by (simp add: calculateRMSE_def tail_pairs_Nil_left)
next
  case False
  then show ?thesis
    by (simp add: calculateRMSE_def Let_def forEach_rmse_tail)
qed

lemma tail_pairs_actual:
  assumes "(a, p) \<in> set (tail_pairs h f)"
  shows "a \<in> cost ` set h"
proof -
  from assms have "a \<in> set (map cost (drop (length h - min (length h) (length f)) h))"
    unfolding tail_pairs_def by (rule set_zip_leftD)
  then show ?thesis
    by (auto dest: in_set_dropD)
qed

subsection \<open>The metrics agree with their specification\<close>

text \<open>
  Claim C1. For every historical sequence (its costs non-negative, as the data model has
  them) and every forecast sequence, \<open>calculateMAPE\<close> pairs the last
  \<open>min (length historical) (length forecast)\<close> historical points, in order, with the
  forecast from index \<open>0\<close>, leaves out every pair whose actual cost is \<open>0\<close> from both
  the sum and the count, and returns the mean of \<open>\<bar>actual - predicted\<bar> / actual * 100\<close>
  over the pairs that remain, and \<open>0\<close> when none remains.
\<close>

theorem calculateMAPE_spec:
  assumes "\<forall>r \<in> set h. 0 \<le> cost r"
  shows "calculateMAPE h (Forecast f) = Inr (spec_MAPE h f)"
proof -
  have "map (\<lambda>(a, p). \<bar>(a - p) / a\<bar> * 100) (filter nonzero_actual (tail_pairs h f)) =
        map (\<lambda>(a, p). \<bar>a - p\<bar> / a * 100) (filter nonzero_actual (tail_pairs h f))"
  proof (rule map_cong [OF refl])
    fix x assume x: "x \<in> set (filter nonzero_actual (tail_pairs h f))"
    obtain a p where ap: "x = (a, p)" by (cases x)
    from x ap have "a \<noteq> 0" and "(a, p) \<in> set (tail_pairs h f)"
      by (simp_all add: nonzero_actual_def)
    with assms have "0 < a"
      by (force dest: tail_pairs_actual)
    then show "(case x of (a, p) \<Rightarrow> \<bar>(a - p) / a\<bar> * 100) = (case x of (a, p) \<Rightarrow> \<bar>a - p\<bar> / a * 100)"
      by (simp add: ap)
  qed
  then show ?thesis
    by (simp only: calculateMAPE_Forecast spec_MAPE_def mean_def Let_def length_map)
qed

theorem calculateMAPE_spec_witness:
  "calculateMAPE [\<lparr>created_at = \<lparr>year = 2024, month = 0, day = 15\<rparr>, cost = 100\<rparr>,
                  \<lparr>created_at = \<lparr>year = 2024, month = 1, day = 15\<rparr>, cost = 110\<rparr>]
     (Forecast [105, 115]) = Inr (105 / 22)"
  using calculateMAPE_spec [of "[\<lparr>created_at = \<lparr>year = 2024, month = 0, day = 15\<rparr>, cost = 100\<rparr>,
                  \<lparr>created_at = \<lparr>year = 2024, month = 1, day = 15\<rparr>, cost = 110\<rparr>]" "[105, 115]"]
  by (simp add: spec_MAPE_def tail_pairs_def mean_def nonzero_actual_def)

text \<open>
  Claim C2. For every historical and forecast sequence, \<open>calculateRMSE\<close> pairs the same
  trailing window as \<open>calculateMAPE\<close>, keeps the pairs whose actual cost is \<open>0\<close>, and
  returns the square root of the mean of \<open>(actual - predicted)\<^sup>2\<close> over the pairs, and
  \<open>0\<close> when there is no pair.
\<close>

theorem calculateRMSE_spec:
  "calculateRMSE h (Forecast f) = Inr (spec_RMSE h f)"
  by (simp add: calculateRMSE_Forecast spec_RMSE_def mean_def Let_def)

theorem calculateRMSE_spec_witness:
  "calculateRMSE [\<lparr>created_at = \<lparr>year = 2024, month = 0, day = 15\<rparr>, cost = 0\<rparr>] (Forecast [10]) = Inr 10"
proof -
  have "sqrt 100 = sqrt (10 ^ 2)" by simp
  also have "\<dots> = 10" by (simp del: power2_eq_square)
  finally have s: "sqrt 100 = 10" .
  show ?thesis
    using calculateRMSE_spec [of "[\<lparr>created_at = \<lparr>year = 2024, month = 0, day = 15\<rparr>, cost = 0\<rparr>]" "[10]"]
    by (simp add: spec_RMSE_def tail_pairs_def mean_def s)
qed

text \<open>
  Claim C7. \<open>calculateMAPE\<close> returns \<open>0\<close> whenever the historical sequence is empty
  (whatever the forecast) and whenever the forecast sequence is empty (whatever the
  history); so does \<open>calculateRMSE\<close>.
\<close>

theorem metrics_zero_on_empty:
  "calculateMAPE [] fd = Inr 0 \<and> calculateMAPE h (Forecast []) = Inr 0 \<and>
   calculateRMSE [] fd = Inr 0 \<and> calculateRMSE h (Forecast []) = Inr 0"
proof -
  have "calculateMAPE [] fd = Inr 0" and "calculateRMSE [] fd = Inr 0"
    by (simp_all add: calculateMAPE_def calculateRMSE_def)
  moreover have "calculateMAPE h (Forecast []) = Inr 0"
    by (simp add: calculateMAPE_Forecast tail_pairs_Nil_right)
  moreover have "calculateRMSE h (Forecast []) = Inr 0"
    by (simp add: calculateRMSE_Forecast tail_pairs_Nil_right)
  ultimately show ?thesis by simp
qed

subsection \<open>Scaling\<close>

lemma tail_pairs_scale:
  "tail_pairs (map (scale_row c) h) (map ((*) c) f) =
     map (\<lambda>(a, p). (c * a, c * p)) (tail_pairs h f)"
  by (simp add: tail_pairs_def scale_row_def drop_map zip_map_map zip_map1 zip_map2
      case_prod_unfold comp_def)

lemma filter_nonzero_scale:
  assumes "c \<noteq> 0"
  shows "filter nonzero_actual (map (\<lambda>(a, p). (c * a, c * p)) ps) =
         map (\<lambda>(a, p). (c * a, c * p)) (filter nonzero_actual ps)"
  using assms by (induction ps) (auto simp: nonzero_actual_def)

lemma ape_scale:
  assumes "c \<noteq> (0::real)"
  shows "map (\<lambda>(a, p). \<bar>(a - p) / a\<bar> * 100) (map (\<lambda>(a, p). (c * a, c * p)) ps) =
         map (\<lambda>(a, p). \<bar>(a - p) / a\<bar> * 100) ps"
proof -
  have key: "(c * a - c * p) / (c * a) = (a - p) / a" for a p
    using assms by (simp add: right_diff_distrib [symmetric])
  have eq: "(\<lambda>(a, p). \<bar>(a - p) / a\<bar> * 100) \<circ> (\<lambda>(a, p). (c * a, c * p)) =
            (\<lambda>(a, p). \<bar>(a - p) / a\<bar> * 100)"
    by (rule ext) (simp only: comp_def case_prod_unfold fst_conv snd_conv key)
  show ?thesis
    by (simp only: map_map eq)
qed

text \<open>
  In exact arithmetic, multiplying every historical cost and every forecast value by a
  constant \<open>c > 0\<close> leaves the value of the formula unchanged.
\<close>

lemma calculateMAPE_scale_invariant_exact:
  assumes "0 < c"
  shows "calculateMAPE (map (scale_row c) h) (Forecast (map ((*) c) f)) =
         calculateMAPE h (Forecast f)"
proof -
  from assms have c: "c \<noteq> 0" by simp
  show ?thesis
    by (simp only: calculateMAPE_Forecast tail_pairs_scale filter_nonzero_scale [OF c]
        ape_scale [OF c] Let_def length_map map_is_Nil_conv)
qed

subsection \<open>Scaling in double arithmetic\<close>






























subsection \<open>The report statistics\<close>

lemma foldl_price_sum:
  "foldl (\<lambda>sum item. sum + price item) a xs = a + sum_list (map price xs)"
  by (induction xs arbitrary: a) simp_all

lemma foldl_plus_sum:
  "foldl (\<lambda>sum p. sum + p) (a::real) xs = a + sum_list xs"
  by (induction xs arbitrary: a) simp_all

lemma calculateStats_Some:
  assumes "h \<noteq> []" and "fs \<noteq> []" and "fc \<noteq> Null"
  shows "calculateStats h fs fc =
    Some \<lparr>lastHistorical = or_zero (price (last h)),
          lastForecast = fc,
          percentChange =
            js_times (js_div (mean fs - mean (map price h)) (mean (map price h))) 100,
          historicalAvg = mean (map price h),
          forecastAvg = mean fs\<rparr>"
  using assms
  by (simp add: calculateStats_def foldl_price_sum foldl_plus_sum mean_def Let_def)

text \<open>
  Nothing is returned exactly when the history is empty, the forecast series is empty or
  the forecasted cost is \<open>null\<close>.
\<close>

lemma calculateStats_None:
  "calculateStats h fs fc = None \<longleftrightarrow> h = [] \<or> fs = [] \<or> fc = Null"
  by (simp add: calculateStats_def Let_def)

text \<open>
  Whenever statistics are returned, the averages are the arithmetic means of the
  historical prices and of the forecast values, and \<open>percentChange\<close> is
  \<open>(forecastAvg - historicalAvg) / historicalAvg * 100\<close>, computed with the division and
  multiplication of the language; that is the finite quotient whenever
  \<open>historicalAvg\<close> is not \<open>0\<close>.
\<close>

lemma calculateStats_percentChange:
  assumes "calculateStats h fs fc = Some st"
  shows "historicalAvg st = mean (map price h) \<and>
         forecastAvg st = mean fs \<and>
         percentChange st =
           js_times (js_div (forecastAvg st - historicalAvg st) (historicalAvg st)) 100 \<and>
         (historicalAvg st \<noteq> 0 \<longrightarrow>
            percentChange st =
              Finite ((forecastAvg st - historicalAvg st) / historicalAvg st * 100))"
proof -
  from assms have "calculateStats h fs fc \<noteq> None" by simp
  then have "h \<noteq> []" and "fs \<noteq> []" and "fc \<noteq> Null"
    by (simp_all add: calculateStats_None)
  then show ?thesis
    using assms by (auto simp: calculateStats_Some js_div_def)
qed

text \<open>
  Claim C4 says that \<open>calculateStats\<close> returns nothing exactly when the history is empty,
  the forecast series is empty or the forecasted cost is undefined, and otherwise
  statistics whose \<open>percentChange\<close> is
  \<open>(forecastAvg - historicalAvg) / historicalAvg * 100\<close>. The check of the forecasted
  cost is \<open>=== null\<close>, which \<open>undefined\<close> passes: when the response holds three values,
  the stored \<open>data.forecast[5]\<close> is \<open>undefined\<close>, and the function returns statistics
  whose \<open>lastForecast\<close> is \<open>undefined\<close> where the claim has it return nothing.
\<close>

theorem calculateStats_undefined_forecastedCost:
  "calculateStats [\<lparr>price = 100\<rparr>, \<lparr>price = 110\<rparr>] [105, 115, 125] Undefined =
     Some \<lparr>lastHistorical = 110, lastForecast = Undefined,
           percentChange = Finite (200 / 21), historicalAvg = 105, forecastAvg = 115\<rparr> \<and>
   calculateStats [\<lparr>price = 100\<rparr>, \<lparr>price = 110\<rparr>] [105, 115, 125] Null = None"
  by (simp add: calculateStats_def js_div_def or_zero_def)

text \<open>
  Claim C10. A forecasted cost of \<open>0\<close> is a defined number: with a non-empty history
  and a non-empty forecast series, \<open>calculateStats\<close> returns statistics whose
  \<open>lastForecast\<close> is \<open>0\<close>, since the check compares with \<open>null\<close> and does not test
  falsiness.
\<close>

theorem calculateStats_zero_forecastedCost:
  assumes "h \<noteq> []" and "fs \<noteq> []"
  shows "\<exists>st. calculateStats h fs (Number 0) = Some st \<and> lastForecast st = Number 0"
  using assms by (simp add: calculateStats_Some)

theorem calculateStats_zero_forecastedCost_witness:
  "[\<lparr>price = 100\<rparr>] \<noteq> [] \<and> [105::real] \<noteq> [] \<and>
   (\<exists>st. calculateStats [\<lparr>price = 100\<rparr>] [105] (Number 0) = Some st \<and>
      lastForecast st = Number 0)"
  using calculateStats_zero_forecastedCost [of "[\<lparr>price = 100\<rparr>]" "[105]"]
  by simp

text \<open>
  Claim C5 says that a historical average of \<open>0\<close> is detected and reported by a
  sentinel (nothing, or a not-a-number marker). The function has no such check: on the
  history \<open>[0]\<close> with the forecast series \<open>[5]\<close> it returns statistics whose
  \<open>percentChange\<close> is \<open>Infinity\<close>.
\<close>

theorem calculateStats_zero_average_counterexample:
  "mean (map price [\<lparr>price = 0\<rparr>]) = 0 \<and>
   calculateStats [\<lparr>price = 0\<rparr>] [5] (Number 5) =
     Some \<lparr>lastHistorical = 0, lastForecast = Number 5, percentChange = PosInfinity,
           historicalAvg = 0, forecastAvg = 5\<rparr>"
  by (simp add: calculateStats_def js_div_def or_zero_def mean_def)

text \<open>
  Claim C5, as amended. When the historical average is \<open>0\<close> and the other preconditions
  hold, \<open>calculateStats\<close> still returns statistics, and their \<open>percentChange\<close> is what
  the division by zero yields: \<open>Infinity\<close> when the forecast average is positive,
  \<open>-Infinity\<close> when it is negative, \<open>NaN\<close> when it is \<open>0\<close>.
\<close>

theorem calculateStats_zero_average:
  assumes "h \<noteq> []" and "fs \<noteq> []" and "mean (map price h) = 0"
  shows "\<exists>st. calculateStats h fs (Number c) = Some st \<and> historicalAvg st = 0 \<and>
           percentChange st =
             (if 0 < mean fs then PosInfinity
              else if mean fs < 0 then NegInfinity
              else NaN)"
  using assms by (simp add: calculateStats_Some js_div_def)

theorem calculateStats_zero_average_witness:
  "[\<lparr>price = 0\<rparr>, \<lparr>price = 0\<rparr>] \<noteq> [] \<and> [5, 7::real] \<noteq> [] \<and>
   mean (map price [\<lparr>price = 0\<rparr>, \<lparr>price = 0\<rparr>]) = 0 \<and>
   (\<exists>st. calculateStats [\<lparr>price = 0\<rparr>, \<lparr>price = 0\<rparr>] [5, 7] (Number 7) = Some st \<and>
      historicalAvg st = 0 \<and> percentChange st = PosInfinity)"
  using calculateStats_zero_average [of "[\<lparr>price = 0\<rparr>, \<lparr>price = 0\<rparr>]" "[5, 7]" 7]
  by (simp add: mean_def)

subsection \<open>The chart series\<close>

lemma history_loop_append:
  "history_loop h acc =
     acc @ map (\<lambda>item. \<lparr>date = toLocaleDateString (created_at item),
                          historical = Some (cost item), forecast = None\<rparr>) h"
  by (induction h arbitrary: acc) simp_all

lemma forecast_loop_append:
  "forecast_loop fc d acc = acc @ forecast_loop fc d []"
proof (induction fc arbitrary: d acc)
  case Nil
  then show ?case by simp
next
  case (Cons v vs)
  show ?case
    by (simp add: Let_def Cons.IH [of _ "acc @ [p]" for p] Cons.IH [of _ "[p]" for p])
qed

lemma forecast_loop_Cons:
  "forecast_loop (v # vs) d [] =
     \<lparr>date = toLocaleDateString (setMonth d (getMonth d + 1)),
      historical = None, forecast = Some v\<rparr>
     # forecast_loop vs (setMonth d (getMonth d + 1)) []"
  using forecast_loop_append [of vs _ "[p]" for p] by (simp add: Let_def)

lemma length_forecast_loop: "length (forecast_loop fc d []) = length fc"
  by (induction fc arbitrary: d) (simp_all add: forecast_loop_Cons del: forecast_loop.simps(2))

lemma forecast_of_forecast_loop: "map forecast (forecast_loop fc d []) = map Some fc"
  by (induction fc arbitrary: d) (simp_all add: forecast_loop_Cons del: forecast_loop.simps(2))

lemma historical_of_forecast_loop:
  "map historical (forecast_loop fc d []) = replicate (length fc) None"
  by (induction fc arbitrary: d) (simp_all add: forecast_loop_Cons del: forecast_loop.simps(2))

lemma prepareChartData_Forecast:
  "prepareChartData now h (Forecast fc) =
     map (\<lambda>item. \<lparr>date = toLocaleDateString (created_at item),
                   historical = Some (cost item), forecast = None\<rparr>) h
     @ forecast_loop fc (if h \<noteq> [] then created_at (last h) else now) []"
  using forecast_loop_append [of fc _ "map f h" for f]
  by (simp add: prepareChartData_def history_loop_append Let_def)

text \<open>
  Claim C6. For every historical and forecast sequence, \<open>prepareChartData\<close> emits
  \<open>length historical + length forecast\<close> points: the first \<open>length historical\<close> carry
  the historical costs in order and no forecast, the last \<open>length forecast\<close> carry the
  forecast values in order and no historical value.
\<close>

theorem prepareChartData_shape:
  "length (prepareChartData now h (Forecast f)) = length h + length f \<and>
   map historical (take (length h) (prepareChartData now h (Forecast f))) =
     map (\<lambda>r. Some (cost r)) h \<and>
   map forecast (take (length h) (prepareChartData now h (Forecast f))) =
     replicate (length h) None \<and>
   map forecast (drop (length h) (prepareChartData now h (Forecast f))) = map Some f \<and>
   map historical (drop (length h) (prepareChartData now h (Forecast f))) =
     replicate (length f) None"
  by (simp add: prepareChartData_Forecast length_forecast_loop forecast_of_forecast_loop
      historical_of_forecast_loop comp_def map_replicate_const)

subsection \<open>Evaluating dates\<close>

lemma make_day_fits:
  assumes "d \<le> days_in_month (y + m div 12) (m mod 12)"
  shows "make_day y m d = \<lparr>year = y + m div 12, month = m mod 12, day = d\<rparr>"
  using assms by (subst make_day.simps) (simp add: Let_def)

lemma make_day_over:
  assumes "\<not> d \<le> days_in_month (y + m div 12) (m mod 12)"
  shows "make_day y m d =
    make_day (y + m div 12) (m mod 12 + 1) (d - days_in_month (y + m div 12) (m mod 12))"
  using assms by (subst make_day.simps) (simp add: Let_def)

lemmas date_eval = forecast_loop_Cons setMonth_def getMonth_def make_day_fits make_day_over
  days_in_month_def leap_year_def toLocaleDateString_def month_year_label_def
  month_short_def two_digits_def

lemma forecast_loop_from_2024_Jan_15:
  "forecast_loop [1] \<lparr>year = 2024, month = 0, day = 15\<rparr> [] =
     [\<lparr>date = ''Feb 24'', historical = None, forecast = Some 1\<rparr>]"
  by (simp add: date_eval del: forecast_loop.simps(2))

lemma forecast_loop_from_2024_Mar_15:
  "forecast_loop [1] \<lparr>year = 2024, month = 2, day = 15\<rparr> [] =
     [\<lparr>date = ''Apr 24'', historical = None, forecast = Some 1\<rparr>]"
  by (simp add: date_eval del: forecast_loop.simps(2))

lemma forecast_loop_from_2024_Jan_31:
  "forecast_loop [1, 2] \<lparr>year = 2024, month = 0, day = 31\<rparr> [] =
     [\<lparr>date = ''Mar 24'', historical = None, forecast = Some 1\<rparr>,
      \<lparr>date = ''Apr 24'', historical = None, forecast = Some 2\<rparr>]"
  by (simp add: date_eval del: forecast_loop.simps(2))

lemma forecast_loop_from_2023_Dec_31:
  "forecast_loop [1, 2] \<lparr>year = 2023, month = 11, day = 31\<rparr> [] =
     [\<lparr>date = ''Jan 24'', historical = None, forecast = Some 1\<rparr>,
      \<lparr>date = ''Mar 24'', historical = None, forecast = Some 2\<rparr>]"
  by (simp add: date_eval del: forecast_loop.simps(2))

lemma following_labels_2024_Jan:
  "following_labels (length [1, 2::real]) (2024, 0) = [''Feb 24'', ''Mar 24'']"
  by (simp add: next_month_def month_year_label_def month_short_def two_digits_def)

lemma following_labels_2023_Dec:
  "following_labels (length [1, 2::real]) (2023, 11) = [''Jan 24'', ''Feb 24'']"
  by (simp add: next_month_def month_year_label_def month_short_def two_digits_def)

subsection \<open>The clock\<close>

text \<open>
  Claim C8 says that two calls with the same historical and forecast sequences give the
  same series, also when the history is empty. With an empty history the cursor starts
  from the current date: the same call made in January 2024 and in March 2024 labels its
  forecast point \<open>Feb 24\<close> and \<open>Apr 24\<close>.
\<close>

theorem prepareChartData_clock_counterexample:
  "prepareChartData \<lparr>year = 2024, month = 0, day = 15\<rparr> [] (Forecast [1]) =
     [\<lparr>date = ''Feb 24'', historical = None, forecast = Some 1\<rparr>] \<and>
   prepareChartData \<lparr>year = 2024, month = 2, day = 15\<rparr> [] (Forecast [1]) =
     [\<lparr>date = ''Apr 24'', historical = None, forecast = Some 1\<rparr>] \<and>
   prepareChartData \<lparr>year = 2024, month = 0, day = 15\<rparr> [] (Forecast [1]) \<noteq>
   prepareChartData \<lparr>year = 2024, month = 2, day = 15\<rparr> [] (Forecast [1])"
  by (simp add: prepareChartData_Forecast forecast_loop_from_2024_Jan_15
      forecast_loop_from_2024_Mar_15 del: forecast_loop.simps(2))

text \<open>
  Claim C8, as amended. Whenever the history is not empty, or there is no forecast value,
  the series is the same whatever the current date is: two calls with the same historical
  and forecast sequences give the same output.
\<close>

theorem prepareChartData_clock_free:
  assumes "h \<noteq> [] \<or> fd = Forecast [] \<or> fd = NoForecast \<or> fd = Nullish"
  shows "prepareChartData now h fd = prepareChartData later h fd"
  using assms by (auto simp: prepareChartData_def)

theorem prepareChartData_clock_free_witness:
  "prepareChartData \<lparr>year = 2024, month = 0, day = 15\<rparr>
     [\<lparr>created_at = \<lparr>year = 2024, month = 0, day = 15\<rparr>, cost = 100\<rparr>] (Forecast [1]) =
   prepareChartData \<lparr>year = 2024, month = 1, day = 15\<rparr>
     [\<lparr>created_at = \<lparr>year = 2024, month = 0, day = 15\<rparr>, cost = 100\<rparr>] (Forecast [1])"
  using prepareChartData_clock_free
    [where h = "[\<lparr>created_at = \<lparr>year = 2024, month = 0, day = 15\<rparr>, cost = 100\<rparr>]"
       and fd = "Forecast [1]" and now = "\<lparr>year = 2024, month = 0, day = 15\<rparr>"
       and later = "\<lparr>year = 2024, month = 1, day = 15\<rparr>"]
  by simp

subsection \<open>A day of the month that the next month lacks\<close>

text \<open>
  Claim C3 says that the forecast labels are one calendar month apart, the first of them
  one month after the month of the last historical point, also when that point falls on
  the 31st. The source's comment on the step is "Move to next month", but \<open>setMonth\<close>
  runs over: from 31 January 2024 the cursor moves to 2 March, so the labels are
  \<open>Mar 24\<close>, \<open>Apr 24\<close> where the months after January are \<open>Feb 24\<close>, \<open>Mar 24\<close>; and
  from 31 December 2023 it moves to 31 January and then to 2 March, so the labels
  \<open>Jan 24\<close>, \<open>Mar 24\<close> are two months apart.
\<close>

theorem prepareChartData_month_overflow:
  "prepareChartData \<lparr>year = 2025, month = 5, day = 1\<rparr>
     [\<lparr>created_at = \<lparr>year = 2024, month = 0, day = 31\<rparr>, cost = 100\<rparr>] (Forecast [1, 2]) =
     [\<lparr>date = ''Jan 24'', historical = Some 100, forecast = None\<rparr>,
      \<lparr>date = ''Mar 24'', historical = None, forecast = Some 1\<rparr>,
      \<lparr>date = ''Apr 24'', historical = None, forecast = Some 2\<rparr>] \<and>
   following_labels (length [1, 2::real]) (2024, 0) = [''Feb 24'', ''Mar 24''] \<and>
   prepareChartData \<lparr>year = 2025, month = 5, day = 1\<rparr>
     [\<lparr>created_at = \<lparr>year = 2023, month = 11, day = 31\<rparr>, cost = 100\<rparr>] (Forecast [1, 2]) =
     [\<lparr>date = ''Dec 23'', historical = Some 100, forecast = None\<rparr>,
      \<lparr>date = ''Jan 24'', historical = None, forecast = Some 1\<rparr>,
      \<lparr>date = ''Mar 24'', historical = None, forecast = Some 2\<rparr>] \<and>
   following_labels (length [1, 2::real]) (2023, 11) = [''Jan 24'', ''Feb 24'']"
proof -
  have labels: "toLocaleDateString \<lparr>year = 2024, month = 0, day = 31\<rparr> = ''Jan 24''"
    "toLocaleDateString \<lparr>year = 2023, month = 11, day = 31\<rparr> = ''Dec 23''"
    by (simp_all add: toLocaleDateString_def month_year_label_def month_short_def two_digits_def)
  have "prepareChartData \<lparr>year = 2025, month = 5, day = 1\<rparr>
     [\<lparr>created_at = \<lparr>year = 2024, month = 0, day = 31\<rparr>, cost = 100\<rparr>] (Forecast [1, 2]) =
     [\<lparr>date = ''Jan 24'', historical = Some 100, forecast = None\<rparr>,
      \<lparr>date = ''Mar 24'', historical = None, forecast = Some 1\<rparr>,
      \<lparr>date = ''Apr 24'', historical = None, forecast = Some 2\<rparr>]"
    by (simp add: prepareChartData_Forecast forecast_loop_from_2024_Jan_31 labels
        del: forecast_loop.simps(2))
  moreover have "prepareChartData \<lparr>year = 2025, month = 5, day = 1\<rparr>
     [\<lparr>created_at = \<lparr>year = 2023, month = 11, day = 31\<rparr>, cost = 100\<rparr>] (Forecast [1, 2]) =
     [\<lparr>date = ''Dec 23'', historical = Some 100, forecast = None\<rparr>,
      \<lparr>date = ''Jan 24'', historical = None, forecast = Some 1\<rparr>,
      \<lparr>date = ''Mar 24'', historical = None, forecast = Some 2\<rparr>]"
    by (simp add: prepareChartData_Forecast forecast_loop_from_2023_Dec_31 labels
        del: forecast_loop.simps(2))
  ultimately show ?thesis
    using following_labels_2024_Jan following_labels_2023_Dec by (simp only: simp_thms)
qed

subsection \<open>Days that every month has\<close>

text \<open>
  From a day of the month up to the 28th the cursor does move by one calendar month at
  each step, and the labels are those of the months that follow.
\<close>

lemma make_day_short:
  assumes "d \<le> 28"
  shows "make_day y m d = \<lparr>year = y + m div 12, month = m mod 12, day = d\<rparr>"
proof -
  have "d \<le> days_in_month (y + m div 12) (m mod 12)"
    using assms by (simp add: days_in_month_def)
  then show ?thesis
    by (rule make_day_fits)
qed

lemma setMonth_next:
  assumes "day dt \<le> 28" and "month dt < 12"
  shows "setMonth dt (Suc (getMonth dt)) =
           \<lparr>year = fst (next_month (year dt, month dt)),
            month = snd (next_month (year dt, month dt)), day = day dt\<rparr>"
proof (cases "month dt = 11")
  case True
  with assms show ?thesis
    by (simp add: setMonth_def getMonth_def make_day_short next_month_def)
next
  case False
  with assms have "Suc (month dt) div 12 = 0" and "Suc (month dt) mod 12 = Suc (month dt)"
    by simp_all
  with assms False show ?thesis
    by (simp add: setMonth_def getMonth_def make_day_short next_month_def)
qed

lemma next_month_in_range:
  assumes "m < 12"
  shows "snd (next_month (y, m)) < 12"
  using assms by (simp add: next_month_def)

lemma forecast_loop_labels:
  assumes "day d \<le> 28" and "month d < 12"
  shows "map date (forecast_loop fc d []) = following_labels (length fc) (year d, month d)"
  using assms
proof (induction fc arbitrary: d)
  case Nil
  then show ?case by simp
next
  case (Cons v vs)
  let ?d' = "setMonth d (Suc (getMonth d))"
  have d': "?d' = \<lparr>year = fst (next_month (year d, month d)),
                    month = snd (next_month (year d, month d)), day = day d\<rparr>"
    using Cons.prems by (rule setMonth_next)
  have "day ?d' \<le> 28" and "month ?d' < 12"
    using Cons.prems by (simp_all add: d' next_month_in_range)
  then have "map date (forecast_loop vs ?d' []) =
               following_labels (length vs) (year ?d', month ?d')"
    by (rule Cons.IH)
  then show ?case
    by (simp add: forecast_loop_Cons toLocaleDateString_def d' Let_def
        del: forecast_loop.simps(2))
qed

lemma prepareChartData_labels_regular:
  assumes "h \<noteq> []" and "day (created_at (last h)) \<le> 28" and "month (created_at (last h)) < 12"
  shows "map date (drop (length h) (prepareChartData now h (Forecast f))) =
           following_labels (length f) (year (created_at (last h)), month (created_at (last h)))"
  using assms by (simp add: prepareChartData_Forecast forecast_loop_labels)

end
